theory Spec2Isabelle
  imports Main
begin

section \<open>JavaScript values used by the components\<close>

text \<open>
  The three Svelte components (the launch controller in the application root, the patient
  banner and the observation viewer) are TypeScript. The built-ins they call are modelled
  here, each one as far as the components use it.

  Truthiness: a string taken from the URL, from \<open>localStorage\<close> or from a FHIR field is
  \<open>null\<close>/\<open>undefined\<close> (here \<open>None\<close>) or a string; \<open>if (x)\<close>, \<open>!x\<close> and
  \<open>x || d\<close> treat \<open>None\<close> and the empty string alike.
\<close>

definition truthy :: "string option \<Rightarrow> bool" where
  "truthy x = (case x of None \<Rightarrow> False | Some s \<Rightarrow> s \<noteq> [])"

definition orElse :: "string option \<Rightarrow> string \<Rightarrow> string" where
  "orElse x d = (case x of None \<Rightarrow> d | Some s \<Rightarrow> if s = [] then d else s)"

definition orNull :: "string option \<Rightarrow> string option" where
  "orNull x = (if truthy x then x else None)"

subsection \<open>Numbers and their decimal rendering\<close>

text \<open>
  A number is \<open>NaN\<close>, an infinity (the flag is the sign: \<open>True\<close> for negative) or a
  finite decimal \<open>Dec m e\<close>, standing for \<open>m * 10 ^ e\<close>. The rounding of a decimal
  literal to the nearest IEEE double is not modelled: \<open>Dec m e\<close> is the shortest decimal
  that a double prints as, which is the literal itself for the readings a thermometer or a
  FHIR server produces (at most 15 significant digits).
\<close>

datatype number = NaN | Infinity bool | Dec int int

definition isNaN :: "number \<Rightarrow> bool" where
  "isNaN x = (case x of NaN \<Rightarrow> True | _ \<Rightarrow> False)"

definition digitChar :: "nat \<Rightarrow> char" where
  "digitChar d = char_of (48 + d)"

fun showNat :: "nat \<Rightarrow> string" where
  "showNat n = (if n < 10 then [digitChar n] else showNat (n div 10) @ [digitChar (n mod 10)])"

declare showNat.simps [simp del]

text \<open>
  \<open>Number::toString\<close> (radix 10) of ECMAScript: with \<open>s\<close> the digits of the number
  without trailing zeros, \<open>k\<close> their count and \<open>n\<close> the position of the decimal point,
  the four notations of the standard in its order.
\<close>

definition finiteToString :: "nat \<Rightarrow> int \<Rightarrow> string" where
  "finiteToString a e =
     (let ds = showNat a;
          z = length (takeWhile (\<lambda>c. c = CHR ''0'') (rev ds));
          s = take (length ds - z) ds;
          k = int (length s);
          n = k + (e + int z)
      in if k \<le> n \<and> n \<le> 21 then s @ replicate (nat (n - k)) (CHR ''0'')
         else if 0 < n \<and> n \<le> 21 then take (nat n) s @ ''.'' @ drop (nat n) s
         else if - 6 < n \<and> n \<le> 0 then ''0.'' @ replicate (nat (- n)) (CHR ''0'') @ s
         else (let x = n - 1;
                   sg = (if x < 0 then ''-'' else ''+'');
                   ex = showNat (nat \<bar>x\<bar>)
               in if k = 1 then s @ ''e'' @ sg @ ex
                  else take 1 s @ ''.'' @ drop 1 s @ ''e'' @ sg @ ex))"

definition Number_toString :: "number \<Rightarrow> string" where
  "Number_toString x =
     (case x of
        NaN \<Rightarrow> ''NaN''
      | Infinity neg \<Rightarrow> (if neg then ''-Infinity'' else ''Infinity'')
      | Dec m e \<Rightarrow>
          if m = 0 then ''0''
          else (if m < 0 then ''-'' else []) @ finiteToString (nat \<bar>m\<bar>) e)"

text \<open>A template literal \<open>`${q.value}`\<close> of an optional number prints \<open>undefined\<close> when the
  field is absent.\<close>

definition template :: "number option \<Rightarrow> string" where
  "template v = (case v of None \<Rightarrow> ''undefined'' | Some x \<Rightarrow> Number_toString x)"

subsection \<open>parseFloat\<close>

text \<open>
  \<open>parseFloat\<close> drops leading white space, takes the longest prefix of the rest that is a
  \<open>StrDecimalLiteral\<close> (an optional sign, then \<open>Infinity\<close>, or digits with an optional
  fraction and an optional exponent, or a fraction that starts with the point) and returns
  its value; with no such prefix it returns \<open>NaN\<close>. White space is the ASCII part of
  ECMAScript's \<open>WhiteSpace\<close> and \<open>LineTerminator\<close>.
\<close>

definition isDigit :: "char \<Rightarrow> bool" where
  "isDigit c = ((48::nat) \<le> of_char c \<and> of_char c \<le> (57::nat))"

definition isWhiteSpace :: "char \<Rightarrow> bool" where
  "isWhiteSpace c = ((of_char c :: nat) \<in> {9, 10, 11, 12, 13, 32})"

definition digitsValue :: "string \<Rightarrow> nat" where
  "digitsValue ds = foldl (\<lambda>acc c. 10 * acc + (of_char c - (48::nat))) 0 ds"

definition signPart :: "string \<Rightarrow> string" where
  "signPart t = (case t of [] \<Rightarrow> [] | c # r \<Rightarrow> if c = CHR ''+'' \<or> c = CHR ''-'' then [c] else [])"

definition exponentPart :: "string \<Rightarrow> string" where
  "exponentPart r =
     (case r of
        [] \<Rightarrow> []
      | c # r' \<Rightarrow>
          if c = CHR ''e'' \<or> c = CHR ''E'' then
            (let sg = signPart r'; ds = takeWhile isDigit (drop (length sg) r')
             in if ds = [] then [] else c # sg @ ds)
          else [])"

definition fractionPart :: "bool \<Rightarrow> string \<Rightarrow> string" where
  "fractionPart haveInt r =
     (case r of
        [] \<Rightarrow> []
      | c # r' \<Rightarrow>
          if c = CHR ''.'' \<and> (haveInt \<or> takeWhile isDigit r' \<noteq> []) then c # takeWhile isDigit r'
          else [])"

definition numericPrefix :: "string \<Rightarrow> string option" where
  "numericPrefix str =
     (let t = dropWhile isWhiteSpace str;
          sg = signPart t;
          u = drop (length sg) t
      in if take 8 u = ''Infinity'' then Some (sg @ ''Infinity'')
         else (let ip = takeWhile isDigit u;
                   fp = fractionPart (ip \<noteq> []) (drop (length ip) u);
                   ex = exponentPart (drop (length ip + length fp) u)
               in if ip = [] \<and> fp = [] then None else Some (sg @ ip @ fp @ ex)))"

definition exponentValue :: "string \<Rightarrow> int" where
  "exponentValue ex =
     (case ex of
        [] \<Rightarrow> 0
      | c # r \<Rightarrow>
          (let sg = signPart r; v = int (digitsValue (drop (length sg) r))
           in if sg = ''-'' then - v else v))"

definition MV :: "string \<Rightarrow> number" where
  "MV p =
     (let sg = signPart p;
          u = drop (length sg) p;
          neg = (sg = ''-'')
      in if u = ''Infinity'' then Infinity neg
         else (let ip = takeWhile isDigit u;
                   fp = fractionPart (ip \<noteq> []) (drop (length ip) u);
                   ex = drop (length ip + length fp) u;
                   m = int (digitsValue (ip @ drop 1 fp))
               in Dec (if neg then - m else m) (exponentValue ex - int (length (drop 1 fp)))))"

definition parseFloat :: "string \<Rightarrow> number" where
  "parseFloat str = (case numericPrefix str of None \<Rightarrow> NaN | Some p \<Rightarrow> MV p)"

section \<open>FHIR resources\<close>

text \<open>
  The parts of the FHIR R4 types \<open>Observation\<close> and \<open>Bundle\<close> that the observation
  viewer reads or writes. Every field of the TypeScript types is optional, hence the
  \<open>option\<close>s.
\<close>

record coding =
  coding_system :: "string option"
  coding_code :: "string option"
  coding_display :: "string option"

record codeableConcept =
  concept_coding :: "coding list option"
  concept_text :: "string option"

record quantity =
  quantity_value :: "number option"
  quantity_unit :: "string option"
  quantity_system :: "string option"
  quantity_code :: "string option"

record observationComponent =
  component_code :: "codeableConcept option"
  component_valueQuantity :: "quantity option"

record observation =
  resourceType :: string
  obs_id :: "string option"
  obs_status :: "string option"
  obs_category :: "codeableConcept list option"
  obs_code :: "codeableConcept option"
  subject_reference :: "string option"
  effectiveDateTime :: "string option"
  component :: "observationComponent list option"
  valueQuantity :: "quantity option"
  valueString :: "string option"

record bundleEntry =
  resource :: "observation option"

record bundleLink =
  relation :: "string option"
  url :: "string option"

record fhirBundle =
  entry :: "bundleEntry list option"
  link :: "bundleLink list option"

section \<open>Observation viewer: formatting a value\<close>

text \<open>\<open>c.code?.coding?.some((coding) => coding.code === code)\<close>\<close>

definition hasCoding :: "string \<Rightarrow> observationComponent \<Rightarrow> bool" where
  "hasCoding c k =
     (case component_code k of
        None \<Rightarrow> False
      | Some cc \<Rightarrow>
          (case concept_coding cc of
             None \<Rightarrow> False
           | Some cs \<Rightarrow> list_ex (\<lambda>cd. coding_code cd = Some c) cs))"

text \<open>The first \<open>if\<close> block of \<open>bpDisplay\<close>: \<open>Some r\<close> when it returns \<open>r\<close>, \<open>None\<close>
  when control falls through to the single-value cases.\<close>

definition bpComponents :: "observation \<Rightarrow> string option" where
  "bpComponents obs =
     (case component obs of
        None \<Rightarrow> None
      | Some cs \<Rightarrow>
          if length cs > 0 then
            (let systolic = find (hasCoding ''8480-6'') cs;
                 diastolic = find (hasCoding ''8462-4'') cs
             in case (Option.bind systolic component_valueQuantity,
                      Option.bind diastolic component_valueQuantity) of
                  (Some sq, Some dq) \<Rightarrow>
                    Some (template (quantity_value sq) @ ''/'' @ template (quantity_value dq)
                          @ '' '' @ orElse (quantity_unit sq) ''mmHg'')
                | _ \<Rightarrow> None)
          else None)"







text \<open>The observations of the specification's examples.\<close>

definition noObservation :: observation where
  "noObservation =
     \<lparr>resourceType = ''Observation'', obs_id = None, obs_status = None, obs_category = None,
      obs_code = None, subject_reference = None, effectiveDateTime = None, component = None,
      valueQuantity = None, valueString = None\<rparr>"



definition temperatureExample :: observation where
  "temperatureExample =
     noObservation\<lparr>valueQuantity :=
        Some \<lparr>quantity_value = Some (Dec 366 (- 1)), quantity_unit = Some ''degC'',
              quantity_system = None, quantity_code = None\<rparr>\<rparr>"

section \<open>Launch controller\<close>

text \<open>
  The application root runs \<open>onMount\<close> once per page load. Its state is the browser's
  \<open>localStorage\<close> (a string-valued dictionary that survives reloads) and the component
  variables \<open>token\<close> and \<open>baseUrl\<close>. The network and \<open>JSON\<close> are the environment:
  \<open>JSON_parse\<close> returns \<open>Inl\<close> when it throws and \<open>Inr None\<close> for a falsy value;
  an axios call returns \<open>Inl\<close> when its promise rejects.
\<close>

record tokenResponseType =
  access_token :: string
  patient :: string
  scope :: string
  need_patient_banner :: bool
  id_token :: string
  smart_style_url :: string
  token_type :: string
  expires_in :: nat

record smartConfiguration =
  authorization_endpoint :: string
  token_endpoint :: string

datatype jsError = Error string | AxiosFailure string | SyntaxError

record launchEnv =
  JSON_parse :: "string \<Rightarrow> jsError + tokenResponseType option"
  JSON_stringify :: "tokenResponseType \<Rightarrow> string"
  axios_post_form :: "string \<Rightarrow> (string \<times> string) list \<Rightarrow> jsError + tokenResponseType"
  axios_get_configuration :: "string \<Rightarrow> jsError + smartConfiguration"

record launchState =
  localStorage :: "string \<rightharpoonup> string"
  token :: "tokenResponseType option"
  baseUrl :: "string option"

text \<open>A URL is kept as its address and the list of its query parameters; the parsing of
  \<open>new URL\<close> and the encoding of \<open>href\<close> are not modelled.\<close>

record href =
  address :: string
  searchParams :: "(string \<times> string) list"

datatype outcome =
  SessionRestored
| CodeExchanged
| Redirected href
| Thrown jsError

definition redirectUrl :: string where
  "redirectUrl = ''http://localhost:5173''"

definition client_id :: string where
  "client_id = ''b8ee6437-99b8-471b-8b98-c89ca1451150''"

definition searchParams_get :: "href \<Rightarrow> string \<Rightarrow> string option" where
  "searchParams_get u k = map_of (searchParams u) k"

fun setPair :: "string \<Rightarrow> string \<Rightarrow> (string \<times> string) list \<Rightarrow> (string \<times> string) list" where
  "setPair k v [] = [(k, v)]"
| "setPair k v (p # ps) =
     (if fst p = k then (k, v) # filter (\<lambda>q. fst q \<noteq> k) ps else p # setPair k v ps)"

definition searchParams_set :: "string \<Rightarrow> string \<Rightarrow> href \<Rightarrow> href" where
  "searchParams_set k v u = u\<lparr>searchParams := setPair k v (searchParams u)\<rparr>"

definition constructAuthUrl :: "string \<Rightarrow> string \<Rightarrow> string \<Rightarrow> href" where
  "constructAuthUrl authorizationEndpoint launch iss =
     (searchParams_set ''launch'' launch
       (searchParams_set ''aud'' iss
         (searchParams_set ''response_type'' ''code''
           (searchParams_set ''scope''
              ''openid fhirUser launch user/Observation.read user/Observation.write user/Patient.read''
             (searchParams_set ''redirect_uri'' redirectUrl
               (searchParams_set ''client_id'' client_id
                 \<lparr>address = authorizationEndpoint, searchParams = []\<rparr>))))))"

definition clearAuthData :: "launchState \<Rightarrow> launchState" where
  "clearAuthData st =
     st\<lparr>localStorage :=
          (localStorage st)(''token'' := None, ''iss'' := None, ''tokenEndpoint'' := None,
                            ''currentLaunch'' := None),
        token := None\<rparr>"

definition launchKey :: "string \<Rightarrow> string \<Rightarrow> string" where
  "launchKey issParam launchParam = issParam @ '':'' @ launchParam"

text \<open>The first block of \<open>onMount\<close>: the check for a new launch.\<close>

definition newLaunchCheck :: "string option \<Rightarrow> string option \<Rightarrow> launchState \<Rightarrow> launchState" where
  "newLaunchCheck issParam launchParam st =
     (case (issParam, launchParam) of
        (Some i, Some l) \<Rightarrow>
          if i \<noteq> [] \<and> l \<noteq> [] then
            (let storedLaunch = localStorage st ''currentLaunch'';
                 currentLaunchKey = launchKey i l;
                 st1 = (if truthy storedLaunch \<and> storedLaunch \<noteq> Some currentLaunchKey
                        then clearAuthData st else st)
             in st1\<lparr>localStorage := (localStorage st1)(''currentLaunch'' \<mapsto> currentLaunchKey)\<rparr>)
          else st
      | _ \<Rightarrow> st)"

definition makeTokenRequest :: "launchEnv \<Rightarrow> string \<Rightarrow> launchState \<Rightarrow> jsError + tokenResponseType" where
  "makeTokenRequest env code st =
     (case localStorage st ''tokenEndpoint'' of
        None \<Rightarrow> Inl (Error ''Token endpoint is not in local storage.'')
      | Some tokenEndpoint \<Rightarrow>
          if tokenEndpoint = [] then Inl (Error ''Token endpoint is not in local storage.'')
          else axios_post_form env tokenEndpoint
                 [(''grant_type'', ''authorization_code''), (''code'', code),
                  (''redirect_uri'', redirectUrl), (''client_id'', client_id)])"

text \<open>The fresh authorization at the end of \<open>onMount\<close>, reached with neither a token nor a
  code.\<close>

definition authorize :: "launchEnv \<Rightarrow> string option \<Rightarrow> string option \<Rightarrow> launchState \<Rightarrow> outcome \<times> launchState" where
  "authorize env issParam launchParam st =
     (case (issParam, launchParam) of
        (Some iss, Some launch) \<Rightarrow>
          if iss = [] \<or> launch = [] then (Thrown (Error ''ISS or Launch parameter is missing.''), st)
          else
            (let st1 = st\<lparr>localStorage := (localStorage st)(''iss'' \<mapsto> iss)\<rparr>
             in case axios_get_configuration env (iss @ ''/.well-known/smart-configuration'') of
                  Inl e \<Rightarrow> (Thrown e, st1)
                | Inr smartConfiguration \<Rightarrow>
                    (Redirected (constructAuthUrl (authorization_endpoint smartConfiguration) launch iss),
                     st1\<lparr>localStorage :=
                           (localStorage st1)(''tokenEndpoint'' \<mapsto> token_endpoint smartConfiguration)\<rparr>))
      | _ \<Rightarrow> (Thrown (Error ''ISS or Launch parameter is missing.''), st))"

text \<open>Everything of \<open>onMount\<close> after the check for a new launch, in its order:
  \<open>baseUrl\<close> is taken from the stored issuer, the stored token is parsed, and the first of
  the three branches that applies is taken (a token, a code, a fresh authorization).\<close>

definition restoreBaseUrl :: "launchState \<Rightarrow> launchState" where
  "restoreBaseUrl st =
     (case localStorage st ''iss'' of
        None \<Rightarrow> st
      | Some issLocalStorage \<Rightarrow>
          if issLocalStorage = [] then st else st\<lparr>baseUrl := Some issLocalStorage\<rparr>)"

definition readToken :: "launchEnv \<Rightarrow> launchState \<Rightarrow> jsError + launchState" where
  "readToken env st =
     (case localStorage st ''token'' of
        None \<Rightarrow> Inr st
      | Some tokenJSON \<Rightarrow>
          if tokenJSON = [] then Inr st
          else (case JSON_parse env tokenJSON of
                  Inl e \<Rightarrow> Inl e
                | Inr parsed \<Rightarrow> Inr (st\<lparr>token := parsed\<rparr>)))"

definition exchangeCode :: "launchEnv \<Rightarrow> string \<Rightarrow> launchState \<Rightarrow> outcome \<times> launchState" where
  "exchangeCode env code st =
     (case makeTokenRequest env code st of
        Inl e \<Rightarrow> (Thrown e, st)
      | Inr tokenFromCerner \<Rightarrow>
          (CodeExchanged,
           st\<lparr>token := Some tokenFromCerner,
              localStorage := (localStorage st)(''token'' \<mapsto> JSON_stringify env tokenFromCerner)\<rparr>))"

definition resolveSession ::
  "launchEnv \<Rightarrow> string option \<Rightarrow> string option \<Rightarrow> string option \<Rightarrow> launchState \<Rightarrow> outcome \<times> launchState" where
  "resolveSession env issParam launchParam code st =
     (case readToken env (restoreBaseUrl st) of
        Inl e \<Rightarrow> (Thrown e, restoreBaseUrl st)
      | Inr st1 \<Rightarrow>
          if token st1 \<noteq> None then (SessionRestored, st1)
          else if truthy code then exchangeCode env (orElse code []) st1
          else authorize env issParam launchParam st1)"

text \<open>A page reload keeps \<open>localStorage\<close> and starts the component's variables afresh.\<close>

definition reload :: "launchState \<Rightarrow> launchState" where
  "reload st = \<lparr>localStorage = localStorage st, token = None, baseUrl = None\<rparr>"

definition onMount :: "launchEnv \<Rightarrow> href \<Rightarrow> launchState \<Rightarrow> outcome \<times> launchState" where
  "onMount env launchUrl st =
     (let issParam = searchParams_get launchUrl ''iss'';
          launchParam = searchParams_get launchUrl ''launch'';
          code = searchParams_get launchUrl ''code''
      in resolveSession env issParam launchParam code (newLaunchCheck issParam launchParam st))"

section \<open>Observation viewer: the feed\<close>

text \<open>
  The component's variables are a record; every function of the component takes the state
  and returns the new one. Two fields are effect logs and no variables of the component:
  \<open>requests\<close> lists the HTTP requests issued so far, and \<open>timers\<close> the delays of the
  \<open>setTimeout\<close> callbacks still pending. The environment of one call holds the
  component's props, the clock, \<open>Date\<close>'s parser (\<open>None\<close> for an invalid date, whose
  \<open>getTime()\<close> is \<open>NaN\<close>) and the server's answers; an axios call returns \<open>Inl\<close>
  when its promise rejects.
\<close>

datatype httpRequest = HttpGet string | HttpPost string observation

datatype postError =
  AxiosError "nat option" "string option" string
| OtherError string
| NotAnError

record postResponse =
  data_id :: "string option"

record viewerEnv =
  accessToken :: string
  patientId :: string
  viewerBaseUrl :: string
  Date_now :: nat
  Date_toISOString :: string
  Date_parse :: "string \<Rightarrow> int option"
  axios_get :: "string \<Rightarrow> string + fhirBundle"
  axios_post :: "string \<Rightarrow> observation \<Rightarrow> postError + postResponse"

record feedState =
  vitalObservations :: "fhirBundle option"
  loading :: bool
  error :: "string option"
  showCreateForm :: bool
  creating :: bool
  createError :: "string option"
  createSuccess :: bool
  currentPage :: nat
  displayedObservations :: "bundleEntry list"
  allObservations :: "bundleEntry list"
  isLoadingMore :: bool
  hasMoreOnServer :: bool
  nextUrl :: "string option"
  temperatureValue :: string
  lastFetchTime :: int
  requests :: "httpRequest list"
  timers :: "nat list"

definition itemsPerPage :: nat where
  "itemsPerPage = 20"

definition CACHE_DURATION :: int where
  "CACHE_DURATION = 30000"

definition initialState :: feedState where
  "initialState =
     \<lparr>vitalObservations = None, loading = True, error = None, showCreateForm = False,
      creating = False, createError = None, createSuccess = False, currentPage = 0,
      displayedObservations = [], allObservations = [], isLoadingMore = False,
      hasMoreOnServer = True, nextUrl = None, temperatureValue = [], lastFetchTime = 0,
      requests = [], timers = []\<rparr>"

subsection \<open>Sorting by effective time\<close>

text \<open>
  \<open>new Date(obs?.effectiveDateTime || "").getTime()\<close>: the empty string is an invalid date.
  The comparison function \<open>dateB - dateA\<close> is \<open>NaN\<close> (here \<open>None\<close>) as soon as one of
  the two times is. \<open>Array.prototype.sort\<close> reads a \<open>NaN\<close> from the comparison function
  as \<open>+0\<close> (\<open>SortCompare\<close>) and is stable; it is modelled as the stable insertion sort.
  Where the comparison is a consistent one on the elements of the array, every sort that
  conforms to ECMAScript returns this result.
\<close>

definition getTime :: "(string \<Rightarrow> int option) \<Rightarrow> bundleEntry \<Rightarrow> int option" where
  "getTime parse e =
     (let str = (case resource e of None \<Rightarrow> [] | Some obs \<Rightarrow> orElse (effectiveDateTime obs) [])
      in if str = [] then None else parse str)"

definition compareDates :: "(string \<Rightarrow> int option) \<Rightarrow> bundleEntry \<Rightarrow> bundleEntry \<Rightarrow> int option" where
  "compareDates parse a b =
     (case (getTime parse a, getTime parse b) of
        (Some dateA, Some dateB) \<Rightarrow> Some (dateB - dateA)
      | _ \<Rightarrow> None)"

definition SortCompare :: "('a \<Rightarrow> 'a \<Rightarrow> int option) \<Rightarrow> 'a \<Rightarrow> 'a \<Rightarrow> int" where
  "SortCompare comparefn x y = (case comparefn x y of None \<Rightarrow> 0 | Some v \<Rightarrow> v)"

fun insertStable :: "('a \<Rightarrow> 'a \<Rightarrow> int option) \<Rightarrow> 'a \<Rightarrow> 'a list \<Rightarrow> 'a list" where
  "insertStable comparefn x [] = [x]"
| "insertStable comparefn x (y # ys) =
     (if SortCompare comparefn x y \<le> 0 then x # y # ys
      else y # insertStable comparefn x ys)"

definition Array_sort :: "('a \<Rightarrow> 'a \<Rightarrow> int option) \<Rightarrow> 'a list \<Rightarrow> 'a list" where
  "Array_sort comparefn xs = foldr (insertStable comparefn) xs []"

definition sortByDate :: "viewerEnv \<Rightarrow> bundleEntry list \<Rightarrow> bundleEntry list" where
  "sortByDate env xs = Array_sort (compareDates (Date_parse env)) xs"

subsection \<open>Fetching\<close>

definition getVitalsEntries :: "fhirBundle \<Rightarrow> bundleEntry list" where
  "getVitalsEntries b = (case entry b of None \<Rightarrow> [] | Some es \<Rightarrow> es)"

text \<open>\<open>bundle.link?.find(link => link.relation === 'next')?.url || null\<close>\<close>

definition nextLink :: "fhirBundle \<Rightarrow> string option" where
  "nextLink b =
     (case link b of
        None \<Rightarrow> None
      | Some ls \<Rightarrow>
          (case find (\<lambda>l. relation l = Some ''next'') ls of
             None \<Rightarrow> None
           | Some l \<Rightarrow> orNull (url l)))"

definition vitalsUrl :: "viewerEnv \<Rightarrow> string" where
  "vitalsUrl env =
     viewerBaseUrl env @ ''/Observation?patient='' @ patientId env
     @ ''&category=vital-signs&_sort=-date&_count=30''"

definition getVitals :: "viewerEnv \<Rightarrow> bool \<Rightarrow> feedState \<Rightarrow> (string + fhirBundle) \<times> feedState" where
  "getVitals env forceRefresh s =
     (let fetch =
            (let s1 = s\<lparr>requests := requests s @ [HttpGet (vitalsUrl env)]\<rparr>
             in case axios_get env (vitalsUrl env) of
                  Inl err \<Rightarrow> (Inl (''Failed to fetch vital signs: '' @ err), s1)
                | Inr b \<Rightarrow>
                    (Inr b, s1\<lparr>lastFetchTime := int (Date_now env), nextUrl := nextLink b,
                              hasMoreOnServer := (nextLink b \<noteq> None)\<rparr>))
      in case vitalObservations s of
           None \<Rightarrow> fetch
         | Some cached \<Rightarrow>
             if \<not> forceRefresh \<and> int (Date_now env) - lastFetchTime s < CACHE_DURATION
             then (Inr cached, s)
             else fetch)"

definition fetchMoreFromServer :: "viewerEnv \<Rightarrow> feedState \<Rightarrow> fhirBundle option \<times> feedState" where
  "fetchMoreFromServer env s =
     (case nextUrl s of
        None \<Rightarrow> (None, s)
      | Some u \<Rightarrow>
          if u = [] \<or> isLoadingMore s then (None, s)
          else
            (let s1 = s\<lparr>isLoadingMore := True, requests := requests s @ [HttpGet u]\<rparr>
             in case axios_get env u of
                  Inr b \<Rightarrow>
                    (Some b, s1\<lparr>nextUrl := nextLink b, hasMoreOnServer := (nextLink b \<noteq> None),
                                isLoadingMore := False\<rparr>)
                | Inl err \<Rightarrow> (None, s1\<lparr>isLoadingMore := False\<rparr>)))"

subsection \<open>The window\<close>

definition windowSize :: "feedState \<Rightarrow> nat" where
  "windowSize s = (currentPage s + 1) * itemsPerPage"

text \<open>
  \<open>entries.sort(...)\<close> sorts the bundle's own array in place when the bundle has one, so
  the bundle is then sorted too; with no \<open>entry\<close> field the sorted array is a fresh empty
  one.
\<close>

definition updateDisplayedObservations :: "viewerEnv \<Rightarrow> feedState \<Rightarrow> feedState" where
  "updateDisplayedObservations env s =
     (let s1 =
            (case vitalObservations s of
               None \<Rightarrow> s
             | Some b \<Rightarrow>
                 if length (allObservations s) = 0 then
                   s\<lparr>allObservations := sortByDate env (getVitalsEntries b),
                     vitalObservations := Some (b\<lparr>entry := map_option (sortByDate env) (entry b)\<rparr>)\<rparr>
                 else s);
          endIndex = (currentPage s1 + 1) * itemsPerPage
      in s1\<lparr>displayedObservations := take endIndex (allObservations s1)\<rparr>)"

text \<open>The reactive statement \<open>$: if (vitalObservations) updateDisplayedObservations()\<close>,
  which Svelte runs after a handler that assigned to \<open>vitalObservations\<close>.\<close>

definition reactive :: "viewerEnv \<Rightarrow> feedState \<Rightarrow> feedState" where
  "reactive env s = (if vitalObservations s \<noteq> None then updateDisplayedObservations env s else s)"

definition loadMore :: "viewerEnv \<Rightarrow> feedState \<Rightarrow> feedState" where
  "loadMore env s =
     (let currentlyNeeded = (currentPage s + 2) * itemsPerPage;
          s1 =
            (if length (allObservations s) < currentlyNeeded \<and> hasMoreOnServer s
                \<and> \<not> isLoadingMore s
             then
               (case fetchMoreFromServer env s of
                  (None, s') \<Rightarrow> s'
                | (Some moreData, s') \<Rightarrow>
                    (let sortedNewEntries = sortByDate env (getVitalsEntries moreData)
                     in s'\<lparr>allObservations :=
                             sortByDate env (allObservations s' @ sortedNewEntries)\<rparr>))
             else s)
      in updateDisplayedObservations env (s1\<lparr>currentPage := currentPage s1 + 1\<rparr>))"

definition hasMore :: "feedState \<Rightarrow> bool" where
  "hasMore s =
     (let currentlyDisplayed = (currentPage s + 1) * itemsPerPage
      in length (allObservations s) > currentlyDisplayed \<or> hasMoreOnServer s)"

subsection \<open>Creating a temperature reading\<close>

definition temperatureObservation :: "viewerEnv \<Rightarrow> string \<Rightarrow> observation" where
  "temperatureObservation env temperature =
     \<lparr>resourceType = ''Observation'',
      obs_id = None,
      obs_status = Some ''final'',
      obs_category =
        Some [\<lparr>concept_coding =
                 Some [\<lparr>coding_system =
                          Some ''http://terminology.hl7.org/CodeSystem/observation-category'',
                        coding_code = Some ''vital-signs'',
                        coding_display = Some ''Vital Signs''\<rparr>],
               concept_text = Some ''Vital Signs''\<rparr>],
      obs_code =
        Some \<lparr>concept_coding =
                Some [\<lparr>coding_system = Some ''http://loinc.org'', coding_code = Some ''8331-1'',
                       coding_display = None\<rparr>],
              concept_text = Some ''Temperature Oral''\<rparr>,
      subject_reference = Some (''Patient/'' @ patientId env),
      effectiveDateTime = Some (Date_toISOString env),
      component = None,
      valueQuantity =
        Some \<lparr>quantity_value = Some (parseFloat temperature), quantity_unit = Some ''degC'',
              quantity_system = Some ''http://unitsofmeasure.org'', quantity_code = Some ''Cel''\<rparr>,
      valueString = None\<rparr>"

definition createErrorMessage :: "postError \<Rightarrow> string" where
  "createErrorMessage err =
     (case err of
        AxiosError status diagnostics message \<Rightarrow>
          ''HTTP '' @ (case status of None \<Rightarrow> ''undefined'' | Some n \<Rightarrow> showNat n) @ '': ''
          @ orElse diagnostics message
      | OtherError message \<Rightarrow> message
      | NotAnError \<Rightarrow> ''Failed to create temperature observation'')"

text \<open>The entry that stands for the created observation: the posted resource with the id
  of the response, or a temporary id when the response has none.\<close>

definition newEntry :: "viewerEnv \<Rightarrow> observation \<Rightarrow> postResponse \<Rightarrow> bundleEntry" where
  "newEntry env obs response =
     \<lparr>resource =
        Some (obs\<lparr>obs_id := Some (orElse (data_id response) (''temp-'' @ showNat (Date_now env))),
                  effectiveDateTime := effectiveDateTime obs\<rparr>)\<rparr>"

text \<open>The body of the \<open>try\<close> block after the POST has answered. Svelte reruns the
  reactive statement after the handler when the bundle was assigned to, which is when
  there is a bundle.\<close>

definition optimisticUpdate :: "viewerEnv \<Rightarrow> observation \<Rightarrow> postResponse \<Rightarrow> feedState \<Rightarrow> feedState" where
  "optimisticUpdate env obs response s =
     (let s1 = s\<lparr>allObservations := newEntry env obs response # allObservations s\<rparr>;
          s2 = (case vitalObservations s1 of
                  None \<Rightarrow> s1
                | Some b \<Rightarrow>
                    s1\<lparr>vitalObservations :=
                         Some (b\<lparr>entry := Some (newEntry env obs response # getVitalsEntries b)\<rparr>)\<rparr>);
          s3 = updateDisplayedObservations env s2;
          s4 = s3\<lparr>createSuccess := True, showCreateForm := False, temperatureValue := []\<rparr>
      in s4\<lparr>timers := timers s4 @ [1000]\<rparr>)"

definition createTemperatureObservation :: "viewerEnv \<Rightarrow> feedState \<Rightarrow> feedState" where
  "createTemperatureObservation env s =
     (if temperatureValue s = [] \<or> isNaN (parseFloat (temperatureValue s)) then
        s\<lparr>createError := Some ''Please enter a valid temperature value''\<rparr>
      else
        (let s1 = s\<lparr>creating := True, createError := None, createSuccess := False\<rparr>;
             obs = temperatureObservation env (temperatureValue s1);
             postUrl = viewerBaseUrl env @ ''/Observation'';
             s2 = s1\<lparr>requests := requests s1 @ [HttpPost postUrl obs]\<rparr>
         in case axios_post env postUrl obs of
              Inr response \<Rightarrow>
                reactive env ((optimisticUpdate env obs response s2)\<lparr>creating := False\<rparr>)
            | Inl err \<Rightarrow> s2\<lparr>createError := Some (createErrorMessage err), creating := False\<rparr>))"

text \<open>The callback of the timer that a successful create sets: the background refresh. A
  rejected \<open>getVitals\<close> leaves the \<open>then\<close> callback unrun.\<close>

definition backgroundRefresh :: "viewerEnv \<Rightarrow> feedState \<Rightarrow> feedState" where
  "backgroundRefresh env s =
     (case getVitals env True s of
        (Inl err, s1) \<Rightarrow> s1
      | (Inr b, s1) \<Rightarrow>
          reactive env
            (updateDisplayedObservations env
               (s1\<lparr>vitalObservations := Some b, allObservations := [], currentPage := 0\<rparr>)))"

definition fireTimer :: "viewerEnv \<Rightarrow> feedState \<Rightarrow> feedState" where
  "fireTimer env s =
     (case timers s of
        [] \<Rightarrow> s
      | delay # rest \<Rightarrow> backgroundRefresh env (s\<lparr>timers := rest\<rparr>))"

definition toggleCreateForm :: "feedState \<Rightarrow> feedState" where
  "toggleCreateForm s =
     s\<lparr>showCreateForm := \<not> showCreateForm s, createError := None, createSuccess := False\<rparr>"

text \<open>The viewer's own \<open>onMount\<close>: the first fetch.\<close>

definition viewerOnMount :: "viewerEnv \<Rightarrow> feedState \<Rightarrow> feedState" where
  "viewerOnMount env s =
     (case getVitals env False s of
        (Inr b, s1) \<Rightarrow> reactive env (s1\<lparr>vitalObservations := Some b, loading := False\<rparr>)
      | (Inl message, s1) \<Rightarrow> s1\<lparr>error := Some message, loading := False\<rparr>)"

text \<open>The states the feed reaches: from the initial one by the mount, by the user's
  actions (typing a temperature, toggling the form, creating, loading more) and by a
  pending timer firing, each under any answers of the server.\<close>

inductive reachable :: "feedState \<Rightarrow> bool" where
  initial: "reachable initialState"
| mount: "reachable s \<Longrightarrow> reachable (viewerOnMount env s)"
| more: "reachable s \<Longrightarrow> reachable (loadMore env s)"
| create: "reachable s \<Longrightarrow> reachable (createTemperatureObservation env s)"
| timer: "reachable s \<Longrightarrow> reachable (fireTimer env s)"
| toggle: "reachable s \<Longrightarrow> reachable (toggleCreateForm s)"
| typing: "reachable s \<Longrightarrow> reachable (s\<lparr>temperatureValue := v\<rparr>)"

text \<open>\<open>loadMore\<close> called again and again, each call with its own answers of the server.\<close>

fun loadMoreTimes :: "viewerEnv list \<Rightarrow> feedState \<Rightarrow> feedState" where
  "loadMoreTimes [] s = s"
| "loadMoreTimes (env # envs) s = loadMoreTimes envs (loadMore env s)"

section \<open>Example inputs\<close>

text \<open>A session left by an earlier launch, the URL of a new launch, and the URL the
  authorization server redirects back to.\<close>

definition exampleToken :: tokenResponseType where
  "exampleToken =
     \<lparr>access_token = ''eyJ0eXAi'', patient = ''12724066'', scope = ''launch openid'',
      need_patient_banner = True, id_token = ''eyJhbGci'', smart_style_url = [],
      token_type = ''Bearer'', expires_in = 570\<rparr>"

definition exampleLaunchEnv :: launchEnv where
  "exampleLaunchEnv =
     \<lparr>JSON_parse = (\<lambda>j. if j = ''{token}'' then Inr (Some exampleToken) else Inl SyntaxError),
      JSON_stringify = (\<lambda>t. ''{token}''),
      axios_post_form = (\<lambda>endpoint form. Inr exampleToken),
      axios_get_configuration =
        (\<lambda>u. Inr \<lparr>authorization_endpoint = ''https://auth.example/authorize'',
                    token_endpoint = ''https://auth.example/token''\<rparr>)\<rparr>"

definition storedSession :: launchState where
  "storedSession =
     \<lparr>localStorage =
        [''token'' \<mapsto> ''{token}'', ''iss'' \<mapsto> ''https://fhir.example/r4'',
         ''tokenEndpoint'' \<mapsto> ''https://auth.example/token'',
         ''currentLaunch'' \<mapsto> ''https://fhir.example/r4:launch-1''],
      token = None, baseUrl = None\<rparr>"

definition newLaunchUrl :: href where
  "newLaunchUrl =
     \<lparr>address = ''http://localhost:5173/'',
      searchParams = [(''iss'', ''https://fhir.example/r4''), (''launch'', ''launch-2'')]\<rparr>"

definition returnUrl :: href where
  "returnUrl =
     \<lparr>address = ''http://localhost:5173/'', searchParams = [(''code'', ''abc'')]\<rparr>"

definition plainUrl :: href where
  "plainUrl = \<lparr>address = ''http://localhost:5173/'', searchParams = []\<rparr>"

section \<open>Orderings and invariants to state the properties with\<close>




text \<open>A server for the examples: one page of two observations, the first without an
  effective time, and no further page.\<close>

definition undatedEntry :: bundleEntry where
  "undatedEntry = \<lparr>resource = Some (noObservation\<lparr>obs_id := Some ''obs-period''\<rparr>)\<rparr>"

definition datedEntry :: bundleEntry where
  "datedEntry =
     \<lparr>resource = Some (temperatureExample\<lparr>obs_id := Some ''obs-temp'',
                         effectiveDateTime := Some ''2024-05-01T10:00:00.000Z''\<rparr>)\<rparr>"

definition examplePage :: fhirBundle where
  "examplePage = \<lparr>entry = Some [undatedEntry, datedEntry], link = None\<rparr>"

definition exampleEnv :: viewerEnv where
  "exampleEnv =
     \<lparr>accessToken = ''eyJ0eXAi'', patientId = ''12724066'',
      viewerBaseUrl = ''https://fhir.example/r4'',
      Date_now = 1714557600000,
      Date_toISOString = ''2024-05-01T10:00:00.000Z'',
      Date_parse = (\<lambda>str. if str = ''2024-05-01T10:00:00.000Z'' then Some 1714557600000
                          else if str = ''2024-04-30T10:00:00.000Z'' then Some 1714471200000
                          else None),
      axios_get = (\<lambda>u. Inr examplePage),
      axios_post = (\<lambda>u obs. Inr \<lparr>data_id = Some ''obs-1''\<rparr>)\<rparr>"

text \<open>What every reachable state of the feed satisfies: the displayed entries are the
  window over the loaded ones, and the loaded collection is empty only when the bundle has
  no entries to initialise it from.\<close>

definition emptyBundle :: "fhirBundle option \<Rightarrow> bool" where
  "emptyBundle v = (case v of None \<Rightarrow> True | Some b \<Rightarrow> getVitalsEntries b = [])"

definition feedInvariant :: "feedState \<Rightarrow> bool" where
  "feedInvariant s =
     (displayedObservations s = take (windowSize s) (allObservations s)
      \<and> (allObservations s = [] \<longrightarrow> emptyBundle (vitalObservations s)))"





text \<open>The mounted example feed with a temperature typed into the form, and a server that
  refuses the POST.\<close>

definition typedState :: "string \<Rightarrow> feedState" where
  "typedState v = (viewerOnMount exampleEnv initialState)\<lparr>temperatureValue := v\<rparr>"

definition refusingEnv :: viewerEnv where
  "refusingEnv =
     exampleEnv\<lparr>axios_post :=
       (\<lambda>u obs. Inl (AxiosError (Some 403) None ''Request failed with status code 403''))\<rparr>"

section \<open>Launch controller: properties\<close>

lemma newLaunchCheck_keeps_key:
  "i \<noteq> [] \<Longrightarrow> l \<noteq> [] \<Longrightarrow>
   localStorage (newLaunchCheck (Some i) (Some l) st) ''currentLaunch'' = Some (launchKey i l)"
  by (simp add: newLaunchCheck_def Let_def clearAuthData_def)

lemma newLaunchCheck_same_key:
  "localStorage st ''currentLaunch'' = Some (launchKey i l) \<Longrightarrow>
   newLaunchCheck (Some i) (Some l) st = st"
  by (simp add: newLaunchCheck_def Let_def truthy_def map_upd_triv)

lemma restoreBaseUrl_localStorage [simp]: "localStorage (restoreBaseUrl st) = localStorage st"
  by (simp add: restoreBaseUrl_def split: option.split)

lemma restoreBaseUrl_token [simp]: "token (restoreBaseUrl st) = token st"
  by (simp add: restoreBaseUrl_def split: option.split)

lemma readToken_localStorage: "readToken env st = Inr st1 \<Longrightarrow> localStorage st1 = localStorage st"
  by (auto simp: readToken_def split: option.splits if_splits sum.splits)

lemma exchangeCode_currentLaunch:
  "localStorage (snd (exchangeCode env c st)) ''currentLaunch'' = localStorage st ''currentLaunch''"
  by (simp add: exchangeCode_def split: sum.split)

lemma authorize_currentLaunch:
  "localStorage (snd (authorize env i l st)) ''currentLaunch'' = localStorage st ''currentLaunch''"
  by (simp add: authorize_def Let_def split: option.split sum.split)

lemma resolveSession_currentLaunch:
  "localStorage (snd (resolveSession env i l c st)) ''currentLaunch'' = localStorage st ''currentLaunch''"
proof (cases "readToken env (restoreBaseUrl st)")
  case (Inl e)
  then show ?thesis by (simp add: resolveSession_def)
next
  case (Inr st1)
  then have "localStorage st1 = localStorage st"
    using readToken_localStorage [OF Inr] by simp
  with Inr show ?thesis
    by (simp add: resolveSession_def exchangeCode_currentLaunch authorize_currentLaunch)
qed

text \<open>
  C1. On a page load whose URL carries an issuer \<open>i\<close> and a launch \<open>l\<close> (both not
  empty), \<open>onMount\<close> is the check for a new launch followed by the rest of the load, so
  the rest runs on the state the check leaves. When a stored launch key exists (is not
  empty) and differs from \<open>i:l\<close>, the check removes the persisted token, issuer and token
  endpoint, replaces the launch key by \<open>i:l\<close> and clears the in-memory token. With no
  stored key only the new key is stored; with the stored key equal to \<open>i:l\<close> the check
  changes nothing. The check of a second load with the same \<open>(i, l)\<close>, run on what the
  first load left in \<open>localStorage\<close>, changes nothing either.
\<close>

theorem new_launch_takeover:
  assumes iss: "searchParams_get launchUrl ''iss'' = Some i" "i \<noteq> []"
    and launch: "searchParams_get launchUrl ''launch'' = Some l" "l \<noteq> []"
  shows "onMount env launchUrl st =
           resolveSession env (Some i) (Some l) (searchParams_get launchUrl ''code'')
             (newLaunchCheck (Some i) (Some l) st)
       \<and> (truthy (localStorage st ''currentLaunch'')
            \<and> localStorage st ''currentLaunch'' \<noteq> Some (launchKey i l) \<longrightarrow>
          newLaunchCheck (Some i) (Some l) st =
            st\<lparr>localStorage :=
                 (localStorage st)(''token'' := None, ''iss'' := None, ''tokenEndpoint'' := None,
                                   ''currentLaunch'' \<mapsto> launchKey i l),
               token := None\<rparr>)
       \<and> (\<not> truthy (localStorage st ''currentLaunch'') \<longrightarrow>
          newLaunchCheck (Some i) (Some l) st =
            st\<lparr>localStorage := (localStorage st)(''currentLaunch'' \<mapsto> launchKey i l)\<rparr>)
       \<and> (localStorage st ''currentLaunch'' = Some (launchKey i l) \<longrightarrow>
          newLaunchCheck (Some i) (Some l) st = st)
       \<and> newLaunchCheck (Some i) (Some l) (reload (snd (onMount env launchUrl st)))
           = reload (snd (onMount env launchUrl st))"
proof -
  have run: "onMount env launchUrl st =
           resolveSession env (Some i) (Some l) (searchParams_get launchUrl ''code'')
             (newLaunchCheck (Some i) (Some l) st)"
    using iss launch by (simp add: onMount_def Let_def)
  have takeover: "truthy (localStorage st ''currentLaunch'')
            \<and> localStorage st ''currentLaunch'' \<noteq> Some (launchKey i l) \<longrightarrow>
          newLaunchCheck (Some i) (Some l) st =
            st\<lparr>localStorage :=
                 (localStorage st)(''token'' := None, ''iss'' := None, ''tokenEndpoint'' := None,
                                   ''currentLaunch'' \<mapsto> launchKey i l),
               token := None\<rparr>"
    using iss launch by (simp add: newLaunchCheck_def Let_def clearAuthData_def)
  have first: "\<not> truthy (localStorage st ''currentLaunch'') \<longrightarrow>
          newLaunchCheck (Some i) (Some l) st =
            st\<lparr>localStorage := (localStorage st)(''currentLaunch'' \<mapsto> launchKey i l)\<rparr>"
    using iss launch by (simp add: newLaunchCheck_def Let_def)
  have same: "localStorage st ''currentLaunch'' = Some (launchKey i l) \<longrightarrow>
          newLaunchCheck (Some i) (Some l) st = st"
    by (simp add: newLaunchCheck_same_key)
  have "localStorage (reload (snd (onMount env launchUrl st))) ''currentLaunch''
          = Some (launchKey i l)"
    using iss launch
    by (simp add: run reload_def resolveSession_currentLaunch newLaunchCheck_keeps_key)
  then have again: "newLaunchCheck (Some i) (Some l) (reload (snd (onMount env launchUrl st)))
           = reload (snd (onMount env launchUrl st))"
    by (rule newLaunchCheck_same_key)
  show ?thesis by (intro conjI run takeover first same again)
qed

theorem new_launch_takeover_witness:
  "newLaunchCheck (Some ''https://fhir.example/r4'') (Some ''launch-2'') storedSession =
     \<lparr>localStorage = [''currentLaunch'' \<mapsto> ''https://fhir.example/r4:launch-2''],
      token = None, baseUrl = None\<rparr>
   \<and> fst (onMount exampleLaunchEnv newLaunchUrl storedSession) =
       Redirected (constructAuthUrl ''https://auth.example/authorize'' ''launch-2''
                     ''https://fhir.example/r4'')"
  using new_launch_takeover [of newLaunchUrl "''https://fhir.example/r4''" "''launch-2''"
      exampleLaunchEnv storedSession]
  by (simp add: newLaunchUrl_def searchParams_get_def storedSession_def truthy_def launchKey_def
      resolveSession_def restoreBaseUrl_def readToken_def authorize_def exampleLaunchEnv_def Let_def)

lemma newLaunchCheck_token: "token st = None \<Longrightarrow> token (newLaunchCheck i l st) = None"
  by (simp add: newLaunchCheck_def clearAuthData_def Let_def split: option.split)

lemma exchangeCode_outcome: "fst (exchangeCode env c st) \<noteq> SessionRestored"
  by (simp add: exchangeCode_def split: sum.split)

lemma authorize_outcome: "fst (authorize env i l st) \<noteq> SessionRestored"
  by (simp add: authorize_def Let_def split: option.split sum.split)

lemma resolveSession_restored:
  "(fst (resolveSession env i l c st) = SessionRestored) =
     (\<exists>st1. readToken env (restoreBaseUrl st) = Inr st1 \<and> token st1 \<noteq> None)"
  by (cases "readToken env (restoreBaseUrl st)")
     (simp_all add: resolveSession_def exchangeCode_outcome authorize_outcome)

lemma readToken_fresh:
  "token st = None \<Longrightarrow>
   (\<exists>st1. readToken env st = Inr st1 \<and> token st1 \<noteq> None) =
   (\<exists>j t. localStorage st ''token'' = Some j \<and> j \<noteq> [] \<and> JSON_parse env j = Inr (Some t))"
  by (auto simp: readToken_def split: option.splits sum.splits if_splits)

lemma resolveSession_restored_state:
  "fst (resolveSession env i l c st) = SessionRestored \<Longrightarrow>
   localStorage (snd (resolveSession env i l c st)) = localStorage st
   \<and> token (snd (resolveSession env i l c st)) \<noteq> None"
proof (cases "readToken env (restoreBaseUrl st)")
  case (Inl e)
  assume "fst (resolveSession env i l c st) = SessionRestored"
  with Inl show ?thesis by (simp add: resolveSession_def)
next
  case (Inr st1)
  assume r: "fst (resolveSession env i l c st) = SessionRestored"
  have ls: "localStorage st1 = localStorage st"
    using readToken_localStorage [OF Inr] by simp
  show ?thesis
  proof (cases "token st1")
    case None
    with Inr r have False
      by (simp add: resolveSession_def exchangeCode_outcome authorize_outcome split: if_splits)
    then show ?thesis ..
  next
    case (Some t)
    with Inr ls show ?thesis by (simp add: resolveSession_def)
  qed
qed

text \<open>
  C2 (as the code has it). On a page load (the in-memory token not yet set) the session is
  restored exactly when, after the check for a new launch, \<open>localStorage\<close> holds a token
  that is not empty and parses to a value that is not falsy. The \<open>code\<close> parameter of the
  URL plays no part: the token is looked at first, and the code only when there is none.
  A restored session leaves \<open>localStorage\<close> as the check left it.
\<close>

theorem session_restored_iff:
  assumes fresh: "token st = None"
  shows "(fst (onMount env launchUrl st) = SessionRestored) =
           (\<exists>j t. localStorage (newLaunchCheck (searchParams_get launchUrl ''iss'')
                                  (searchParams_get launchUrl ''launch'') st) ''token'' = Some j
                  \<and> j \<noteq> [] \<and> JSON_parse env j = Inr (Some t))
       \<and> (fst (onMount env launchUrl st) = SessionRestored \<longrightarrow>
            localStorage (snd (onMount env launchUrl st)) =
              localStorage (newLaunchCheck (searchParams_get launchUrl ''iss'')
                              (searchParams_get launchUrl ''launch'') st)
            \<and> token (snd (onMount env launchUrl st)) \<noteq> None)"
proof -
  let ?st0 = "newLaunchCheck (searchParams_get launchUrl ''iss'')
                (searchParams_get launchUrl ''launch'') st"
  have t0: "token (restoreBaseUrl ?st0) = None"
    using fresh by (simp add: newLaunchCheck_token)
  have "(fst (onMount env launchUrl st) = SessionRestored) =
          (\<exists>st1. readToken env (restoreBaseUrl ?st0) = Inr st1 \<and> token st1 \<noteq> None)"
    by (simp add: onMount_def Let_def resolveSession_restored)
  also have "\<dots> = (\<exists>j t. localStorage ?st0 ''token'' = Some j \<and> j \<noteq> []
                        \<and> JSON_parse env j = Inr (Some t))"
    using readToken_fresh [OF t0, of env] by simp
  finally have iff: "(fst (onMount env launchUrl st) = SessionRestored) =
          (\<exists>j t. localStorage ?st0 ''token'' = Some j \<and> j \<noteq> []
                        \<and> JSON_parse env j = Inr (Some t))" .
  have asis: "fst (onMount env launchUrl st) = SessionRestored \<longrightarrow>
            localStorage (snd (onMount env launchUrl st)) = localStorage ?st0
            \<and> token (snd (onMount env launchUrl st)) \<noteq> None"
    using resolveSession_restored_state
      [of env "searchParams_get launchUrl ''iss''" "searchParams_get launchUrl ''launch''"
          "searchParams_get launchUrl ''code''" ?st0]
    by (simp add: onMount_def Let_def)
  show ?thesis by (intro conjI iff asis)
qed

theorem session_restored_iff_witness:
  "fst (onMount exampleLaunchEnv plainUrl storedSession) = SessionRestored
   \<and> token (snd (onMount exampleLaunchEnv plainUrl storedSession)) \<noteq> None"
  using session_restored_iff [of storedSession exampleLaunchEnv plainUrl]
  by (simp add: plainUrl_def searchParams_get_def storedSession_def newLaunchCheck_def
      exampleLaunchEnv_def)

text \<open>
  C2 as stated fails: with a persisted token and \<open>?code=abc\<close> in the URL the load
  restores the session (and exchanges nothing), although the claim says that such a load
  does not short-circuit to restoration.
\<close>

theorem restored_despite_code_counterexample:
  "localStorage storedSession ''token'' = Some ''{token}''
   \<and> searchParams_get returnUrl ''code'' = Some ''abc''
   \<and> onMount exampleLaunchEnv returnUrl storedSession =
       (SessionRestored,
        storedSession\<lparr>token := Some exampleToken, baseUrl := Some ''https://fhir.example/r4''\<rparr>)"
  by (simp add: returnUrl_def searchParams_get_def storedSession_def onMount_def
      newLaunchCheck_def resolveSession_def restoreBaseUrl_def readToken_def exampleLaunchEnv_def)

section \<open>Observation viewer: properties of the formatting\<close>



section \<open>Sorting: properties\<close>

lemma set_insertStable [simp]: "set (insertStable c x ys) = insert x (set ys)"
  by (induction ys) auto

lemma length_insertStable [simp]: "length (insertStable c x ys) = Suc (length ys)"
  by (induction ys) auto

lemma set_Array_sort [simp]: "set (Array_sort c xs) = set xs"
  by (induction xs) (simp_all add: Array_sort_def)

lemma length_Array_sort [simp]: "length (Array_sort c xs) = length xs"
  by (induction xs) (simp_all add: Array_sort_def)

lemma Array_sort_Nil [simp]: "Array_sort c [] = []"
  by (simp add: Array_sort_def)

lemma Array_sort_eq_Nil [simp]: "(Array_sort c xs = []) = (xs = [])"
  using length_Array_sort [of c xs] by (metis length_0_conv)


lemma SortCompare_undated:
  "getTime parse a = None \<or> getTime parse b = None \<Longrightarrow>
   SortCompare (compareDates parse) a b = 0"
  by (auto simp: SortCompare_def compareDates_def split: option.splits)




section \<open>Observation viewer: properties of the feed\<close>

lemma sortByDate_simps [simp]:
  "set (sortByDate env xs) = set xs"
  "length (sortByDate env xs) = length xs"
  "(sortByDate env xs = []) = (xs = [])"
  by (simp_all add: sortByDate_def)

lemma feedInvariant_cong:
  "allObservations s' = allObservations s \<Longrightarrow> displayedObservations s' = displayedObservations s
   \<Longrightarrow> currentPage s' = currentPage s \<Longrightarrow> vitalObservations s' = vitalObservations s
   \<Longrightarrow> feedInvariant s' = feedInvariant s"
  by (simp add: feedInvariant_def windowSize_def)

lemma udo_currentPage [simp]: "currentPage (updateDisplayedObservations env s) = currentPage s"
  by (simp add: updateDisplayedObservations_def Let_def split: option.split)

lemma udo_effects [simp]:
  "requests (updateDisplayedObservations env s) = requests s"
  "timers (updateDisplayedObservations env s) = timers s"
  "nextUrl (updateDisplayedObservations env s) = nextUrl s"
  "hasMoreOnServer (updateDisplayedObservations env s) = hasMoreOnServer s"
  "isLoadingMore (updateDisplayedObservations env s) = isLoadingMore s"
  by (simp_all add: updateDisplayedObservations_def Let_def split: option.split)

lemma udo_form [simp]:
  "showCreateForm (updateDisplayedObservations env s) = showCreateForm s"
  "createError (updateDisplayedObservations env s) = createError s"
  "createSuccess (updateDisplayedObservations env s) = createSuccess s"
  "creating (updateDisplayedObservations env s) = creating s"
  "temperatureValue (updateDisplayedObservations env s) = temperatureValue s"
  by (simp_all add: updateDisplayedObservations_def Let_def split: option.split)

lemma udo_displayed:
  "displayedObservations (updateDisplayedObservations env s) =
     take (windowSize s) (allObservations (updateDisplayedObservations env s))"
  by (simp add: updateDisplayedObservations_def windowSize_def Let_def split: option.split)

lemma udo_loaded:
  "allObservations s \<noteq> [] \<Longrightarrow>
   updateDisplayedObservations env s =
     s\<lparr>displayedObservations := take (windowSize s) (allObservations s)\<rparr>"
  by (simp add: updateDisplayedObservations_def windowSize_def Let_def split: option.split)

lemma udo_no_bundle:
  "vitalObservations s = None \<Longrightarrow>
   updateDisplayedObservations env s =
     s\<lparr>displayedObservations := take (windowSize s) (allObservations s)\<rparr>"
  by (simp add: updateDisplayedObservations_def windowSize_def Let_def)

lemma udo_initialise:
  "allObservations s = [] \<Longrightarrow> vitalObservations s = Some b \<Longrightarrow>
   updateDisplayedObservations env s =
     s\<lparr>allObservations := sortByDate env (getVitalsEntries b),
       vitalObservations := Some (b\<lparr>entry := map_option (sortByDate env) (entry b)\<rparr>),
       displayedObservations := take (windowSize s) (sortByDate env (getVitalsEntries b))\<rparr>"
  by (simp add: updateDisplayedObservations_def windowSize_def Let_def)

lemma getVitalsEntries_sorted:
  "getVitalsEntries (b\<lparr>entry := map_option (sortByDate env) (entry b)\<rparr>) =
     sortByDate env (getVitalsEntries b)"
  by (simp add: getVitalsEntries_def sortByDate_def split: option.split)

lemma udo_invariant: "feedInvariant (updateDisplayedObservations env s)"
proof (cases "allObservations s = []")
  case False
  then show ?thesis by (simp add: udo_loaded feedInvariant_def windowSize_def)
next
  case True
  show ?thesis
  proof (cases "vitalObservations s")
    case None
    then show ?thesis by (simp add: udo_no_bundle feedInvariant_def windowSize_def emptyBundle_def)
  next
    case (Some b)
    with True show ?thesis
      by (simp add: udo_initialise feedInvariant_def windowSize_def emptyBundle_def
          getVitalsEntries_sorted)
  qed
qed

lemma reactive_invariant: "feedInvariant s \<Longrightarrow> feedInvariant (reactive env s)"
  by (simp add: reactive_def udo_invariant)

lemma getVitals_view:
  "getVitals env force s = (r, s1) \<Longrightarrow>
   allObservations s1 = allObservations s \<and> displayedObservations s1 = displayedObservations s
   \<and> currentPage s1 = currentPage s \<and> vitalObservations s1 = vitalObservations s
   \<and> timers s1 = timers s"
  by (auto simp: getVitals_def Let_def split: option.splits sum.splits if_splits)

lemma fetchMore_view:
  "fetchMoreFromServer env s = (r, s1) \<Longrightarrow>
   allObservations s1 = allObservations s \<and> displayedObservations s1 = displayedObservations s
   \<and> currentPage s1 = currentPage s \<and> vitalObservations s1 = vitalObservations s
   \<and> timers s1 = timers s"
  by (auto simp: fetchMoreFromServer_def Let_def split: option.splits sum.splits if_splits)

lemma loadMore_invariant: "feedInvariant (loadMore env s)"
  by (simp add: loadMore_def Let_def udo_invariant)

lemma loadMore_currentPage: "currentPage (loadMore env s) = currentPage s + 1"
proof -
  obtain r s1 where f: "fetchMoreFromServer env s = (r, s1)" by (cases "fetchMoreFromServer env s")
  have "currentPage s1 = currentPage s" using fetchMore_view [OF f] by simp
  with f show ?thesis
    by (simp add: loadMore_def Let_def split: option.split)
qed

lemma reactive_loaded:
  "allObservations s \<noteq> [] \<Longrightarrow> displayedObservations s = take (windowSize s) (allObservations s)
   \<Longrightarrow> reactive env s = s"
  by (simp add: reactive_def udo_loaded)

lemma optimisticUpdate_result:
  "optimisticUpdate env obs response s =
     s\<lparr>allObservations := newEntry env obs response # allObservations s,
       vitalObservations :=
         map_option (\<lambda>b. b\<lparr>entry := Some (newEntry env obs response # getVitalsEntries b)\<rparr>)
           (vitalObservations s),
       displayedObservations := take (windowSize s) (newEntry env obs response # allObservations s),
       createSuccess := True, showCreateForm := False, temperatureValue := [],
       timers := timers s @ [1000]\<rparr>"
  by (cases "vitalObservations s")
     (simp_all add: optimisticUpdate_def Let_def udo_loaded windowSize_def)

lemma create_rejected:
  "temperatureValue s = [] \<or> isNaN (parseFloat (temperatureValue s)) \<Longrightarrow>
   createTemperatureObservation env s =
     s\<lparr>createError := Some ''Please enter a valid temperature value''\<rparr>"
  by (simp add: createTemperatureObservation_def)

lemma create_failed:
  assumes "temperatureValue s \<noteq> []" "\<not> isNaN (parseFloat (temperatureValue s))"
    and "axios_post env (viewerBaseUrl env @ ''/Observation'')
           (temperatureObservation env (temperatureValue s)) = Inl err"
  shows "createTemperatureObservation env s =
     s\<lparr>creating := False, createError := Some (createErrorMessage err), createSuccess := False,
       requests := requests s @ [HttpPost (viewerBaseUrl env @ ''/Observation'')
                                  (temperatureObservation env (temperatureValue s))]\<rparr>"
  using assms by (simp add: createTemperatureObservation_def Let_def)

lemma create_succeeded:
  assumes "temperatureValue s \<noteq> []" "\<not> isNaN (parseFloat (temperatureValue s))"
    and "axios_post env (viewerBaseUrl env @ ''/Observation'')
           (temperatureObservation env (temperatureValue s)) = Inr response"
  shows "createTemperatureObservation env s =
     s\<lparr>creating := False, createError := None,
       requests := requests s @ [HttpPost (viewerBaseUrl env @ ''/Observation'')
                                  (temperatureObservation env (temperatureValue s))],
       allObservations :=
         newEntry env (temperatureObservation env (temperatureValue s)) response # allObservations s,
       vitalObservations :=
         map_option (\<lambda>b. b\<lparr>entry := Some (newEntry env (temperatureObservation env (temperatureValue s)) response
                                            # getVitalsEntries b)\<rparr>)
           (vitalObservations s),
       displayedObservations :=
         take (windowSize s)
           (newEntry env (temperatureObservation env (temperatureValue s)) response # allObservations s),
       createSuccess := True, showCreateForm := False, temperatureValue := [],
       timers := timers s @ [1000]\<rparr>"
  using assms
  by (simp add: createTemperatureObservation_def Let_def optimisticUpdate_result
      reactive_loaded windowSize_def)

lemma create_invariant:
  "feedInvariant s \<Longrightarrow> feedInvariant (createTemperatureObservation env s)"
proof -
  assume inv: "feedInvariant s"
  let ?obs = "temperatureObservation env (temperatureValue s)"
  show ?thesis
  proof (cases "temperatureValue s = [] \<or> isNaN (parseFloat (temperatureValue s))")
    case True
    then show ?thesis using inv
      by (simp add: create_rejected feedInvariant_def windowSize_def)
  next
    case False
    show ?thesis
    proof (cases "axios_post env (viewerBaseUrl env @ ''/Observation'') ?obs")
      case (Inl err)
      with False inv show ?thesis
        by (simp add: create_failed feedInvariant_def windowSize_def)
    next
      case (Inr response)
      with False show ?thesis
        by (simp add: create_succeeded feedInvariant_def windowSize_def)
    qed
  qed
qed

lemma backgroundRefresh_invariant:
  "feedInvariant s \<Longrightarrow> feedInvariant (backgroundRefresh env s)"
proof -
  assume inv: "feedInvariant s"
  obtain r s1 where g: "getVitals env True s = (r, s1)" by (cases "getVitals env True s")
  show ?thesis
  proof (cases r)
    case (Inl err)
    have "feedInvariant s1 = feedInvariant s"
      using getVitals_view [OF g] by (intro feedInvariant_cong) simp_all
    with g Inl inv show ?thesis by (simp add: backgroundRefresh_def)
  next
    case (Inr b)
    with g show ?thesis
      by (simp add: backgroundRefresh_def reactive_invariant udo_invariant)
  qed
qed

lemma fireTimer_invariant: "feedInvariant s \<Longrightarrow> feedInvariant (fireTimer env s)"
proof (cases "timers s")
  case Nil
  assume "feedInvariant s"
  with Nil show ?thesis by (simp add: fireTimer_def)
next
  case (Cons delay rest)
  assume "feedInvariant s"
  then have "feedInvariant (s\<lparr>timers := rest\<rparr>)"
    by (simp add: feedInvariant_def windowSize_def)
  with Cons show ?thesis by (simp add: fireTimer_def backgroundRefresh_invariant)
qed

lemma viewerOnMount_invariant: "feedInvariant s \<Longrightarrow> feedInvariant (viewerOnMount env s)"
proof -
  assume inv: "feedInvariant s"
  obtain r s1 where g: "getVitals env False s = (r, s1)" by (cases "getVitals env False s")
  have s1: "feedInvariant s1"
    using getVitals_view [OF g] inv feedInvariant_cong [of s1 s] by simp
  show ?thesis
  proof (cases r)
    case (Inl message)
    with g s1 show ?thesis by (simp add: viewerOnMount_def feedInvariant_def windowSize_def)
  next
    case (Inr b)
    with g show ?thesis
      by (simp add: viewerOnMount_def reactive_def udo_invariant)
  qed
qed

lemma reachable_invariant: "reachable s \<Longrightarrow> feedInvariant s"
proof (induction rule: reachable.induct)
  case initial
  show ?case by (simp add: feedInvariant_def initialState_def emptyBundle_def)
next
  case (mount s env)
  then show ?case by (simp add: viewerOnMount_invariant)
next
  case (more s env)
  show ?case by (rule loadMore_invariant)
next
  case (create s env)
  then show ?case by (simp add: create_invariant)
next
  case (timer s env)
  then show ?case by (simp add: fireTimer_invariant)
next
  case (toggle s)
  then show ?case by (simp add: toggleCreateForm_def feedInvariant_def windowSize_def)
next
  case (typing s v)
  then show ?case by (simp add: feedInvariant_def windowSize_def)
qed

subsection \<open>The window over the loaded entries\<close>

lemma example_times:
  "getTime (Date_parse exampleEnv) undatedEntry = None"
  "getTime (Date_parse exampleEnv) datedEntry = Some 1714557600000"
  by (simp_all add: getTime_def undatedEntry_def datedEntry_def exampleEnv_def noObservation_def
      temperatureExample_def orElse_def)

lemma example_sorted:
  "sortByDate exampleEnv [undatedEntry, datedEntry] = [undatedEntry, datedEntry]"
  by (simp add: sortByDate_def Array_sort_def SortCompare_def compareDates_def example_times)

lemma example_mounted:
  "viewerOnMount exampleEnv initialState =
     initialState\<lparr>vitalObservations := Some examplePage, loading := False,
                  displayedObservations := [undatedEntry, datedEntry],
                  allObservations := [undatedEntry, datedEntry],
                  hasMoreOnServer := False, lastFetchTime := 1714557600000,
                  requests := [HttpGet ''https://fhir.example/r4/Observation?patient=12724066&category=vital-signs&_sort=-date&_count=30'']\<rparr>"
proof -
  have g: "getVitals exampleEnv False initialState =
      (Inr examplePage,
       initialState\<lparr>requests := [HttpGet (vitalsUrl exampleEnv)], lastFetchTime := 1714557600000,
                    nextUrl := None, hasMoreOnServer := False\<rparr>)"
    by (simp add: getVitals_def initialState_def Let_def exampleEnv_def nextLink_def examplePage_def)
  have u: "vitalsUrl exampleEnv = ''https://fhir.example/r4/Observation?patient=12724066&category=vital-signs&_sort=-date&_count=30''"
    by (simp add: vitalsUrl_def exampleEnv_def)
  have e: "getVitalsEntries examplePage = [undatedEntry, datedEntry]" "entry examplePage = Some [undatedEntry, datedEntry]"
    by (simp_all add: getVitalsEntries_def examplePage_def)
  have p: "examplePage\<lparr>entry := Some [undatedEntry, datedEntry]\<rparr> = examplePage"
    by (simp add: examplePage_def)
  show ?thesis
    unfolding viewerOnMount_def g
    by (simp add: reactive_def udo_initialise initialState_def e example_sorted windowSize_def
        itemsPerPage_def u p)
qed

lemma example_reachable: "reachable (viewerOnMount exampleEnv initialState)"
  by (rule reachable.mount [OF reachable.initial])

lemma loadMore_saturated:
  assumes inv: "feedInvariant s" and cursor: "\<not> hasMoreOnServer s"
    and full: "length (allObservations s) \<le> windowSize s"
  shows "loadMore env s = s\<lparr>currentPage := currentPage s + 1\<rparr>"
proof -
  let ?s' = "s\<lparr>currentPage := currentPage s + 1\<rparr>"
  have shown: "displayedObservations s = allObservations s"
    using inv full by (simp add: feedInvariant_def)
  have step: "loadMore env s = updateDisplayedObservations env ?s'"
    using cursor by (simp add: loadMore_def Let_def)
  have wider: "length (allObservations s) \<le> windowSize ?s'"
    using full by (simp add: windowSize_def)
  show ?thesis
  proof (cases "allObservations s = []")
    case False
    then have "updateDisplayedObservations env ?s' =
        ?s'\<lparr>displayedObservations := take (windowSize ?s') (allObservations ?s')\<rparr>"
      by (simp add: udo_loaded)
    with step wider shown show ?thesis by simp
  next
    case True
    show ?thesis
    proof (cases "vitalObservations s")
      case None
      then have "updateDisplayedObservations env ?s' =
          ?s'\<lparr>displayedObservations := take (windowSize ?s') (allObservations ?s')\<rparr>"
        by (simp add: udo_no_bundle)
      with step True shown show ?thesis by simp
    next
      case (Some b)
      have noEntries: "getVitalsEntries b = []"
        using inv True Some by (simp add: feedInvariant_def emptyBundle_def)
      then have same: "b\<lparr>entry := map_option (sortByDate env) (entry b)\<rparr> = b"
        by (cases "entry b") (simp_all add: getVitalsEntries_def sortByDate_def)
      have keep: "?s'\<lparr>allObservations := allObservations s, vitalObservations := vitalObservations s,
              displayedObservations := displayedObservations s\<rparr> = ?s'"
        by simp
      have "updateDisplayedObservations env ?s' =
          ?s'\<lparr>allObservations := [], vitalObservations := Some b, displayedObservations := []\<rparr>"
        using True Some noEntries same by (simp add: udo_initialise sortByDate_def)
      also have "\<dots> = ?s'"
        using keep True Some shown by simp
      finally show ?thesis using step by simp
    qed
  qed
qed

lemma loadMoreTimes_saturated:
  assumes "feedInvariant s" "\<not> hasMoreOnServer s" "length (allObservations s) \<le> windowSize s"
  shows "loadMoreTimes envs s = s\<lparr>currentPage := currentPage s + length envs\<rparr>"
  using assms
proof (induction envs arbitrary: s)
  case Nil
  show ?case by simp
next
  case (Cons env envs)
  let ?s' = "s\<lparr>currentPage := currentPage s + 1\<rparr>"
  have one: "loadMore env s = ?s'"
    using Cons.prems by (rule loadMore_saturated)
  have inv': "feedInvariant ?s'"
    using loadMore_invariant [of env s] one by simp
  have "loadMoreTimes envs ?s' = ?s'\<lparr>currentPage := currentPage ?s' + length envs\<rparr>"
    using inv' Cons.prems(2,3) by (intro Cons.IH) (simp_all add: windowSize_def)
  with one show ?case by simp
qed

text \<open>
  C7. In every state the feed reaches, the displayed entries are the first \<open>windowSize\<close>
  of the loaded ones, so their number is \<open>min windowSize (length allObservations)\<close>,
  with \<open>windowSize = (currentPage + 1) * itemsPerPage\<close>; and a call of \<open>loadMore\<close>, in
  any state and whatever the server answers, makes \<open>windowSize\<close> larger by exactly
  \<open>itemsPerPage\<close>.
\<close>

theorem window_invariant:
  "(reachable s \<longrightarrow>
      displayedObservations s = take (windowSize s) (allObservations s)
      \<and> length (displayedObservations s) = min (windowSize s) (length (allObservations s)))
   \<and> windowSize (loadMore env s') = windowSize s' + itemsPerPage"
proof -
  have grow: "windowSize (loadMore env s') = windowSize s' + itemsPerPage"
    by (simp add: windowSize_def loadMore_currentPage)
  have window: "reachable s \<longrightarrow>
      displayedObservations s = take (windowSize s) (allObservations s)
      \<and> length (displayedObservations s) = min (windowSize s) (length (allObservations s))"
  proof
    assume "reachable s"
    then have "displayedObservations s = take (windowSize s) (allObservations s)"
      using reachable_invariant by (simp add: feedInvariant_def)
    then show "displayedObservations s = take (windowSize s) (allObservations s)
      \<and> length (displayedObservations s) = min (windowSize s) (length (allObservations s))"
      by (simp add: min.commute)
  qed
  show ?thesis by (intro conjI window grow)
qed

theorem window_invariant_witness:
  "length (displayedObservations (viewerOnMount exampleEnv initialState)) = 2
   \<and> windowSize (viewerOnMount exampleEnv initialState) = 20
   \<and> windowSize (loadMore exampleEnv (viewerOnMount exampleEnv initialState)) = 40"
  using window_invariant [of "viewerOnMount exampleEnv initialState" exampleEnv
      "viewerOnMount exampleEnv initialState"] example_reachable
  unfolding example_mounted
  by (simp add: windowSize_def itemsPerPage_def initialState_def)

text \<open>
  C8. In a state the feed reaches where the server has no more pages
  (\<open>hasMoreOnServer\<close> is false, which is what \<open>loadMore\<close> looks at; \<open>nextUrl\<close> is then
  null) and all loaded entries are within the window, any number of calls of
  \<open>loadMore\<close>, whatever the server would answer, only advance \<open>currentPage\<close>: the
  displayed and the loaded entries, the cursor and the list of requests issued stay as they
  are, and \<open>hasMore\<close> is false afterwards.
\<close>

theorem loadMore_exhausted:
  assumes "reachable s" and "nextUrl s = None" and "\<not> hasMoreOnServer s"
    and "length (allObservations s) \<le> windowSize s"
  shows "loadMoreTimes envs s = s\<lparr>currentPage := currentPage s + length envs\<rparr>
       \<and> \<not> hasMore (loadMoreTimes envs s)
       \<and> displayedObservations (loadMoreTimes envs s) = displayedObservations s
       \<and> allObservations (loadMoreTimes envs s) = allObservations s
       \<and> nextUrl (loadMoreTimes envs s) = None
       \<and> hasMoreOnServer (loadMoreTimes envs s) = False
       \<and> requests (loadMoreTimes envs s) = requests s"
proof -
  have eq: "loadMoreTimes envs s = s\<lparr>currentPage := currentPage s + length envs\<rparr>"
    using assms(1,3,4) by (intro loadMoreTimes_saturated reachable_invariant)
  have "length (allObservations s) \<le> (currentPage s + length envs + 1) * itemsPerPage"
    using assms(4) by (simp add: windowSize_def add_mult_distrib)
  then have "\<not> hasMore (s\<lparr>currentPage := currentPage s + length envs\<rparr>)"
    using assms(3) by (simp add: hasMore_def Let_def)
  with assms(2,3) show ?thesis by (simp add: eq)
qed

theorem loadMore_exhausted_witness:
  "loadMoreTimes [exampleEnv, exampleEnv] (viewerOnMount exampleEnv initialState) =
     (viewerOnMount exampleEnv initialState)\<lparr>currentPage := 2\<rparr>
   \<and> displayedObservations (loadMoreTimes [exampleEnv, exampleEnv]
        (viewerOnMount exampleEnv initialState)) = [undatedEntry, datedEntry]
   \<and> \<not> hasMore (loadMoreTimes [exampleEnv, exampleEnv] (viewerOnMount exampleEnv initialState))"
  using loadMore_exhausted [of "viewerOnMount exampleEnv initialState" "[exampleEnv, exampleEnv]"]
    example_reachable
  unfolding example_mounted
  by (simp add: windowSize_def itemsPerPage_def initialState_def hasMore_def)

subsection \<open>Order of the loaded entries\<close>



lemma sortByDate_Nil [simp]: "sortByDate env [] = []"
  by (simp add: sortByDate_def)





subsection \<open>Creating a reading\<close>

lemma typedState_fields:
  "temperatureValue (typedState v) = v"
  "timers (typedState v) = []"
  "allObservations (typedState v) = [undatedEntry, datedEntry]"
  "displayedObservations (typedState v) = [undatedEntry, datedEntry]"
  "currentPage (typedState v) = 0"
  "requests (typedState v) = [HttpGet ''https://fhir.example/r4/Observation?patient=12724066&category=vital-signs&_sort=-date&_count=30'']"
  "showCreateForm (typedState v) = False"
  unfolding typedState_def example_mounted by (simp_all add: initialState_def)

lemma parse_example:
  "parseFloat ''36.6'' = Dec 366 (- 1)"
  "parseFloat ''36.6abc'' = Dec 366 (- 1)"
  "numericPrefix ''36.6abc'' = Some ''36.6''"
  "MV ''36.6'' = Dec 366 (- 1)"
  "Number_toString (Dec 366 (- 1)) = ''36.6''"
  "parseFloat ''abc'' = NaN"
  by code_simp+

lemma bpComponents_id [simp]: "bpComponents (obs\<lparr>obs_id := i\<rparr>) = bpComponents obs"
  by (simp add: bpComponents_def)






lemma create_succeeded_view:
  assumes "temperatureValue s \<noteq> []" and "\<not> isNaN (parseFloat (temperatureValue s))"
    and "axios_post env (viewerBaseUrl env @ ''/Observation'')
           (temperatureObservation env (temperatureValue s)) = Inr response"
  shows "allObservations (createTemperatureObservation env s) =
           newEntry env (temperatureObservation env (temperatureValue s)) response # allObservations s"
    and "displayedObservations (createTemperatureObservation env s) =
           newEntry env (temperatureObservation env (temperatureValue s)) response
           # take (windowSize s - 1) (allObservations s)"
    and "timers (createTemperatureObservation env s) = timers s @ [1000]"
    and "requests (createTemperatureObservation env s) =
           requests s @ [HttpPost (viewerBaseUrl env @ ''/Observation'')
                           (temperatureObservation env (temperatureValue s))]"
  by (simp_all add: create_succeeded [OF assms] windowSize_def itemsPerPage_def take_Cons')


lemma example_post:
  "axios_post exampleEnv (viewerBaseUrl exampleEnv @ ''/Observation'')
      (temperatureObservation exampleEnv (temperatureValue (typedState ''36.6''))) =
      Inr \<lparr>data_id = Some ''obs-1''\<rparr>"
  by (simp add: exampleEnv_def)

lemma example_valid:
  "temperatureValue (typedState ''36.6'') \<noteq> []"
  "\<not> isNaN (parseFloat (temperatureValue (typedState ''36.6'')))"
  by (simp_all add: typedState_fields parse_example isNaN_def)


subsection \<open>The background refresh\<close>

lemma udo_idem:
  "updateDisplayedObservations env (updateDisplayedObservations env s) =
     updateDisplayedObservations env s"
proof (cases "allObservations s = []")
  case False
  then show ?thesis by (simp add: udo_loaded windowSize_def)
next
  case True
  show ?thesis
  proof (cases "vitalObservations s")
    case None
    then show ?thesis by (simp add: udo_no_bundle windowSize_def)
  next
    case (Some b)
    let ?b' = "b\<lparr>entry := map_option (sortByDate env) (entry b)\<rparr>"
    let ?t = "s\<lparr>allObservations := sortByDate env (getVitalsEntries b),
                vitalObservations := Some ?b',
                displayedObservations := take (windowSize s) (sortByDate env (getVitalsEntries b))\<rparr>"
    have first: "updateDisplayedObservations env s = ?t"
      using True Some by (rule udo_initialise)
    show ?thesis
    proof (cases "getVitalsEntries b = []")
      case False
      then have "allObservations ?t \<noteq> []" by simp
      then have "updateDisplayedObservations env ?t =
          ?t\<lparr>displayedObservations := take (windowSize ?t) (allObservations ?t)\<rparr>"
        by (rule udo_loaded)
      then show ?thesis unfolding first by (simp add: windowSize_def)
    next
      case empty: True
      then have same: "?b' = b"
        by (cases "entry b") (simp_all add: getVitalsEntries_def)
      have "updateDisplayedObservations env ?t =
          ?t\<lparr>allObservations := sortByDate env (getVitalsEntries ?b'),
             vitalObservations := Some (?b'\<lparr>entry := map_option (sortByDate env) (entry ?b')\<rparr>),
             displayedObservations := take (windowSize ?t) (sortByDate env (getVitalsEntries ?b'))\<rparr>"
        using empty by (intro udo_initialise) simp_all
      then show ?thesis unfolding first using empty same by (simp add: windowSize_def)
    qed
  qed
qed

lemma reactive_udo:
  "reactive env (updateDisplayedObservations env s) = updateDisplayedObservations env s"
  by (simp add: reactive_def udo_idem)

lemma getVitals_forced:
  "axios_get env (vitalsUrl env) = Inr b \<Longrightarrow>
   getVitals env True s =
     (Inr b, s\<lparr>requests := requests s @ [HttpGet (vitalsUrl env)],
               lastFetchTime := int (Date_now env), nextUrl := nextLink b,
               hasMoreOnServer := (nextLink b \<noteq> None)\<rparr>)"
  by (simp add: getVitals_def Let_def split: option.split)

lemma backgroundRefresh_result:
  assumes "axios_get env (vitalsUrl env) = Inr b"
  shows "backgroundRefresh env s =
     s\<lparr>requests := requests s @ [HttpGet (vitalsUrl env)],
       lastFetchTime := int (Date_now env), nextUrl := nextLink b,
       hasMoreOnServer := (nextLink b \<noteq> None),
       vitalObservations := Some (b\<lparr>entry := map_option (sortByDate env) (entry b)\<rparr>),
       allObservations := sortByDate env (getVitalsEntries b),
       currentPage := 0,
       displayedObservations := take itemsPerPage (sortByDate env (getVitalsEntries b))\<rparr>"
proof -
  let ?s0 = "s\<lparr>requests := requests s @ [HttpGet (vitalsUrl env)],
               lastFetchTime := int (Date_now env), nextUrl := nextLink b,
               hasMoreOnServer := (nextLink b \<noteq> None),
               vitalObservations := Some b, allObservations := [], currentPage := 0\<rparr>"
  have "backgroundRefresh env s = reactive env (updateDisplayedObservations env ?s0)"
    by (simp add: backgroundRefresh_def getVitals_forced [OF assms])
  also have "\<dots> = updateDisplayedObservations env ?s0"
    by (rule reactive_udo)
  also have "\<dots> =
     s\<lparr>requests := requests s @ [HttpGet (vitalsUrl env)],
       lastFetchTime := int (Date_now env), nextUrl := nextLink b,
       hasMoreOnServer := (nextLink b \<noteq> None),
       vitalObservations := Some (b\<lparr>entry := map_option (sortByDate env) (entry b)\<rparr>),
       allObservations := sortByDate env (getVitalsEntries b),
       currentPage := 0,
       displayedObservations := take itemsPerPage (sortByDate env (getVitalsEntries b))\<rparr>"
    by (simp add: udo_initialise windowSize_def)
  finally show ?thesis .
qed

text \<open>
  C6. A successful create sets one timer with the fixed delay of 1000 ms. When a pending
  timer fires and the list is fetched, the request is issued whatever the cache holds (the
  fetch is forced), the loaded collection becomes the sorted entries of the bundle the
  server returned, so it holds these entries and no others, and the window is back on the
  first page: \<open>currentPage\<close> is 0 and \<open>windowSize\<close> is one page.
\<close>

theorem reconciliation_replaces_collection:
  "(temperatureValue s \<noteq> [] \<and> \<not> isNaN (parseFloat (temperatureValue s))
      \<and> axios_post env (viewerBaseUrl env @ ''/Observation'')
            (temperatureObservation env (temperatureValue s)) = Inr response \<longrightarrow>
    timers (createTemperatureObservation env s) = timers s @ [1000])
   \<and> (timers s' = delay # rest \<and> axios_get env' (vitalsUrl env') = Inr b \<longrightarrow>
        requests (fireTimer env' s') = requests s' @ [HttpGet (vitalsUrl env')]
        \<and> allObservations (fireTimer env' s') = sortByDate env' (getVitalsEntries b)
        \<and> set (allObservations (fireTimer env' s')) = set (getVitalsEntries b)
        \<and> length (allObservations (fireTimer env' s')) = length (getVitalsEntries b)
        \<and> currentPage (fireTimer env' s') = 0
        \<and> windowSize (fireTimer env' s') = itemsPerPage
        \<and> displayedObservations (fireTimer env' s') =
            take itemsPerPage (allObservations (fireTimer env' s'))
        \<and> timers (fireTimer env' s') = rest)"
proof -
  have scheduled: "temperatureValue s \<noteq> [] \<and> \<not> isNaN (parseFloat (temperatureValue s))
      \<and> axios_post env (viewerBaseUrl env @ ''/Observation'')
            (temperatureObservation env (temperatureValue s)) = Inr response \<longrightarrow>
    timers (createTemperatureObservation env s) = timers s @ [1000]"
    by (simp add: create_succeeded)
  have fired: "timers s' = delay # rest \<and> axios_get env' (vitalsUrl env') = Inr b \<longrightarrow>
        requests (fireTimer env' s') = requests s' @ [HttpGet (vitalsUrl env')]
        \<and> allObservations (fireTimer env' s') = sortByDate env' (getVitalsEntries b)
        \<and> set (allObservations (fireTimer env' s')) = set (getVitalsEntries b)
        \<and> length (allObservations (fireTimer env' s')) = length (getVitalsEntries b)
        \<and> currentPage (fireTimer env' s') = 0
        \<and> windowSize (fireTimer env' s') = itemsPerPage
        \<and> displayedObservations (fireTimer env' s') =
            take itemsPerPage (allObservations (fireTimer env' s'))
        \<and> timers (fireTimer env' s') = rest"
    by (simp add: fireTimer_def backgroundRefresh_result windowSize_def)
  show ?thesis by (intro conjI scheduled fired)
qed

theorem reconciliation_replaces_collection_witness:
  "timers (createTemperatureObservation exampleEnv (typedState ''36.6'')) = [1000]
   \<and> length (allObservations (createTemperatureObservation exampleEnv (typedState ''36.6''))) = 3
   \<and> allObservations (fireTimer exampleEnv
        (createTemperatureObservation exampleEnv (typedState ''36.6''))) =
       [undatedEntry, datedEntry]
   \<and> currentPage (fireTimer exampleEnv
        (createTemperatureObservation exampleEnv (typedState ''36.6''))) = 0"
proof -
  have page: "axios_get exampleEnv (vitalsUrl exampleEnv) = Inr examplePage"
    by (simp add: exampleEnv_def)
  have entries: "getVitalsEntries examplePage = [undatedEntry, datedEntry]"
    by (simp add: getVitalsEntries_def examplePage_def)
  have three: "length (allObservations (createTemperatureObservation exampleEnv (typedState ''36.6''))) = 3"
    by (simp add: create_succeeded_view(1) [OF example_valid example_post] typedState_fields)
  show ?thesis
    using reconciliation_replaces_collection
      [of "typedState ''36.6''" exampleEnv "\<lparr>data_id = Some ''obs-1''\<rparr>"
          "createTemperatureObservation exampleEnv (typedState ''36.6'')" 1000 "[]"
          exampleEnv examplePage]
      example_post example_valid page three
    by (simp add: typedState_fields entries example_sorted)
qed

subsection \<open>Validation of the typed value\<close>









lemma refusing_post:
  "axios_post refusingEnv (viewerBaseUrl refusingEnv @ ''/Observation'')
      (temperatureObservation refusingEnv (temperatureValue (typedState ''36.6''))) =
      Inl (AxiosError (Some 403) None ''Request failed with status code 403'')"
  by (simp add: refusingEnv_def)

lemma refusal_message:
  "createErrorMessage (AxiosError (Some 403) None ''Request failed with status code 403'') =
     ''HTTP 403: Request failed with status code 403''"
  by code_simp

text \<open>
  C9. When the typed value is empty or \<open>parseFloat\<close> of it is \<open>NaN\<close>, create only sets
  the validation error: no request is issued and every other variable of the feed is as
  before. When the value is valid and the POST fails, the loaded and the displayed
  entries, the page, the bundle and the pending timers are as before the call, so no
  optimistic entry has been added; \<open>createError\<close> holds the message of the failure; the
  form is open or closed as it was and keeps the typed value; the POST is the one request
  issued.
\<close>

theorem create_errors_leave_feed:
  "(temperatureValue s = [] \<or> isNaN (parseFloat (temperatureValue s)) \<longrightarrow>
      createTemperatureObservation env s =
        s\<lparr>createError := Some ''Please enter a valid temperature value''\<rparr>
      \<and> requests (createTemperatureObservation env s) = requests s)
   \<and> (temperatureValue s' \<noteq> [] \<and> \<not> isNaN (parseFloat (temperatureValue s'))
        \<and> axios_post env' (viewerBaseUrl env' @ ''/Observation'')
              (temperatureObservation env' (temperatureValue s')) = Inl err \<longrightarrow>
      allObservations (createTemperatureObservation env' s') = allObservations s'
      \<and> displayedObservations (createTemperatureObservation env' s') = displayedObservations s'
      \<and> currentPage (createTemperatureObservation env' s') = currentPage s'
      \<and> vitalObservations (createTemperatureObservation env' s') = vitalObservations s'
      \<and> timers (createTemperatureObservation env' s') = timers s'
      \<and> createError (createTemperatureObservation env' s') = Some (createErrorMessage err)
      \<and> showCreateForm (createTemperatureObservation env' s') = showCreateForm s'
      \<and> temperatureValue (createTemperatureObservation env' s') = temperatureValue s'
      \<and> requests (createTemperatureObservation env' s') =
          requests s' @ [HttpPost (viewerBaseUrl env' @ ''/Observation'')
                           (temperatureObservation env' (temperatureValue s'))])"
proof -
  have invalid: "temperatureValue s = [] \<or> isNaN (parseFloat (temperatureValue s)) \<longrightarrow>
      createTemperatureObservation env s =
        s\<lparr>createError := Some ''Please enter a valid temperature value''\<rparr>
      \<and> requests (createTemperatureObservation env s) = requests s"
  proof
    assume "temperatureValue s = [] \<or> isNaN (parseFloat (temperatureValue s))"
    then have "createTemperatureObservation env s =
        s\<lparr>createError := Some ''Please enter a valid temperature value''\<rparr>"
      by (rule create_rejected)
    then show "createTemperatureObservation env s =
        s\<lparr>createError := Some ''Please enter a valid temperature value''\<rparr>
      \<and> requests (createTemperatureObservation env s) = requests s"
      by simp
  qed
  have failed: "temperatureValue s' \<noteq> [] \<and> \<not> isNaN (parseFloat (temperatureValue s'))
        \<and> axios_post env' (viewerBaseUrl env' @ ''/Observation'')
              (temperatureObservation env' (temperatureValue s')) = Inl err \<longrightarrow>
      allObservations (createTemperatureObservation env' s') = allObservations s'
      \<and> displayedObservations (createTemperatureObservation env' s') = displayedObservations s'
      \<and> currentPage (createTemperatureObservation env' s') = currentPage s'
      \<and> vitalObservations (createTemperatureObservation env' s') = vitalObservations s'
      \<and> timers (createTemperatureObservation env' s') = timers s'
      \<and> createError (createTemperatureObservation env' s') = Some (createErrorMessage err)
      \<and> showCreateForm (createTemperatureObservation env' s') = showCreateForm s'
      \<and> temperatureValue (createTemperatureObservation env' s') = temperatureValue s'
      \<and> requests (createTemperatureObservation env' s') =
          requests s' @ [HttpPost (viewerBaseUrl env' @ ''/Observation'')
                           (temperatureObservation env' (temperatureValue s'))]"
    by (simp add: create_failed)
  show ?thesis by (intro conjI invalid failed)
qed

theorem create_errors_leave_feed_witness:
  "createTemperatureObservation exampleEnv (typedState ''abc'') =
     (typedState ''abc'')\<lparr>createError := Some ''Please enter a valid temperature value''\<rparr>
   \<and> allObservations (createTemperatureObservation refusingEnv (typedState ''36.6'')) =
       [undatedEntry, datedEntry]
   \<and> displayedObservations (createTemperatureObservation refusingEnv (typedState ''36.6'')) =
       [undatedEntry, datedEntry]
   \<and> createError (createTemperatureObservation refusingEnv (typedState ''36.6'')) =
       Some ''HTTP 403: Request failed with status code 403''"
  using create_errors_leave_feed
    [of "typedState ''abc''" exampleEnv "typedState ''36.6''" refusingEnv
        "AxiosError (Some 403) None ''Request failed with status code 403''"]
    refusing_post example_valid
  by (simp add: typedState_fields parse_example isNaN_def refusal_message)



end
